theory Spec2Isabelle
  imports Complex_Main
begin

section \<open>JavaScript values used by the client\<close>

text \<open>
  A JavaScript number is a double; it is modelled by the rational that is its exact
  value, an integer-valued one (an id, a count of minutes, a dollar amount) by that
  \<open>int\<close>. Arithmetic rounds its exact result to the nearest double, as the machine does.
  Infinities and NaN have no model: results beyond the largest finite double are not
  covered. Strings are lists of code units. A value that may be \<open>null\<close> or \<open>undefined\<close>
  is an \<open>option\<close>.
\<close>

definition digit_char :: "int \<Rightarrow> char" where
  "digit_char d = char_of (48 + d)"

text \<open>Decimal digits of a non-negative integer, most significant first.\<close>

function show_digits :: "int \<Rightarrow> string" where
  "show_digits n =
     (if n < 10 then [digit_char n] else show_digits (n div 10) @ [digit_char (n mod 10)])"
  by pat_completeness auto
termination
  by (relation "measure nat") auto

declare show_digits.simps [simp del]

definition pow2 :: "int \<Rightarrow> rat" where
  "pow2 k = (if k \<ge> 0 then 2 ^ nat k else 1 / 2 ^ nat (- k))"

text \<open>The number of binary digits of a positive integer.\<close>

function bit_length :: "int \<Rightarrow> int" where
  "bit_length n = (if n \<le> 0 then 0 else 1 + bit_length (n div 2))"
  by pat_completeness auto
termination
  by (relation "measure nat") auto

declare bit_length.simps [simp del]

text \<open>For \<open>a > 0\<close>, the exponent \<open>e\<close> with \<open>2^e \<le> a < 2^(e+1)\<close>.\<close>

definition log2_floor :: "rat \<Rightarrow> int" where
  "log2_floor a =
     (let (p, q) = quotient_of a;
          d = bit_length p - bit_length q
      in if pow2 d \<le> a then d else d - 1)"

definition round_half_even :: "rat \<Rightarrow> int" where
  "round_half_even r =
     (let f = \<lfloor>r\<rfloor>; d = r - of_int f
      in if d < 1 / 2 then f else if d > 1 / 2 then f + 1 else if even f then f else f + 1)"

text \<open>
  Rounding to the nearest double, ties to the even significand: 53 significant bits,
  and below \<open>2^-1022\<close> the fixed spacing \<open>2^-1074\<close> of the subnormal numbers.
\<close>

definition to_double :: "rat \<Rightarrow> rat" where
  "to_double x =
     (if x = 0 then 0
      else (let a = \<bar>x\<bar>;
                e = max (log2_floor a) (- 1022);
                ulp = pow2 (e - 52);
                m = round_half_even (a / ulp)
            in (if x < 0 then - 1 else 1) * of_int m * ulp))"

definition js_add :: "rat \<Rightarrow> rat \<Rightarrow> rat" where
  "js_add a b = to_double (a + b)"

definition js_sub :: "rat \<Rightarrow> rat \<Rightarrow> rat" where
  "js_sub a b = to_double (a - b)"

definition js_mul :: "rat \<Rightarrow> rat \<Rightarrow> rat" where
  "js_mul a b = to_double (a * b)"

text \<open>Division by a divisor other than zero.\<close>

definition js_div :: "rat \<Rightarrow> rat \<Rightarrow> rat" where
  "js_div a b = to_double (a / b)"

text \<open>
  The decimal string of a number \<open>x \<ge> 10^21\<close> (an integer, at that size), as the
  language standard defines it: the fewest digits \<open>s\<close> (\<open>k\<close> of them) and the exponent
  \<open>n\<close> such that \<open>s * 10^(n-k)\<close> rounds to \<open>x\<close>; among several \<open>s\<close> the one nearest to
  \<open>x\<close>, the even one on a tie. For a given \<open>k\<close> the two multiples of \<open>10^(n0-k)\<close>
  around \<open>x\<close> are the only candidates, where \<open>n0\<close> is the number of digits of \<open>x\<close>; the
  upper one may be \<open>10^n0\<close> itself, which has one digit more.
\<close>

definition digits_candidates :: "rat \<Rightarrow> nat \<Rightarrow> nat \<Rightarrow> (int \<times> nat) list" where
  "digits_candidates x n0 k =
     (let lo = \<lfloor>x / 10 ^ (n0 - k)\<rfloor>;
          cs = [(lo, n0), if lo + 1 = 10 ^ k then (10 ^ (k - 1), n0 + 1) else (lo + 1, n0)]
      in filter (\<lambda>(s, n). 10 ^ (k - 1) \<le> s \<and> to_double (of_int s * 10 ^ (n - k)) = x) cs)"

definition closest_digits :: "rat \<Rightarrow> nat \<Rightarrow> (int \<times> nat) list \<Rightarrow> (int \<times> nat) option" where
  "closest_digits x k cs =
     (case cs of
        [] \<Rightarrow> None
      | [c] \<Rightarrow> Some c
      | (s1, n1) # (s2, n2) # _ \<Rightarrow>
          (let d1 = \<bar>of_int s1 * 10 ^ (n1 - k) - x\<bar>; d2 = \<bar>of_int s2 * 10 ^ (n2 - k) - x\<bar>
           in if d1 < d2 then Some (s1, n1) else if d2 < d1 then Some (s2, n2)
              else if even s1 then Some (s1, n1) else Some (s2, n2)))"

text \<open>The search for the least \<open>k\<close>, from \<open>k\<close> upwards; with all \<open>n0\<close> digits the
  number itself is found, so \<open>n0\<close> steps are enough.\<close>

fun shortest_digits :: "rat \<Rightarrow> nat \<Rightarrow> nat \<Rightarrow> nat \<Rightarrow> int \<times> nat \<times> nat" where
  "shortest_digits x n0 k 0 = (\<lfloor>x\<rfloor>, n0, n0)"
| "shortest_digits x n0 k (Suc steps) =
     (case closest_digits x k (digits_candidates x n0 k) of
        Some (s, n) \<Rightarrow> (s, k, n)
      | None \<Rightarrow> shortest_digits x n0 (Suc k) steps)"

definition exponent_string :: "rat \<Rightarrow> string" where
  "exponent_string x =
     (let n0 = length (show_digits \<lfloor>x\<rfloor>);
          (s, k, n) = shortest_digits x n0 1 n0;
          ds = show_digits s
      in (if k = 1 then ds else take 1 ds @ ''.'' @ drop 1 ds)
         @ ''e+'' @ show_digits (int n - 1))"

text \<open>Template-literal conversion \<open>`${n}`\<close> of an integer-valued number: its digits
  below \<open>10^21\<close>, the exponent form from there on.\<close>

definition show_int :: "int \<Rightarrow> string" where
  "show_int i =
     (let s = (if i < 0 then ''-'' else '''');
          n = (if i < 0 then - i else i)
      in s @ (if n \<ge> 10 ^ 21 then exponent_string (of_int n) else show_digits n))"

text \<open>
  \<open>Number.prototype.toFixed(fd)\<close> as the language standard defines it, for \<open>fd\<close> up to
  100 (the callers pass 0 or 1): the sign is split off; from \<open>10^21\<close> on the result is
  the decimal string of the number; below, \<open>n\<close> is the integer nearest to \<open>x * 10^fd\<close>
  (the larger one on a tie), its digits are padded with zeros to \<open>fd + 1\<close> places and the
  decimal point is inserted before the last \<open>fd\<close> digits.
\<close>

definition toFixed :: "nat \<Rightarrow> rat \<Rightarrow> string" where
  "toFixed fd x =
     (let s = (if x < 0 then ''-'' else '''');
          x' = (if x < 0 then - x else x);
          m = (if x' \<ge> 10 ^ 21 then exponent_string x'
               else (let n = \<lfloor>x' * 10 ^ fd + 1 / 2\<rfloor>;
                         m = show_digits n
                     in if fd \<noteq> 0
                        then (let z = (if length m \<le> fd
                                       then replicate (fd + 1 - length m) (CHR ''0'') @ m
                                       else m);
                                  k = length z
                              in take (k - fd) z @ ''.'' @ drop (k - fd) z)
                        else m))
      in s @ m)"

text \<open>The operand selected by \<open>a || d\<close> when \<open>a\<close> is a string, \<open>null\<close> or \<open>undefined\<close>:
  the empty string is falsy, like \<open>null\<close> and \<open>undefined\<close>.\<close>

definition truthy :: "string option \<Rightarrow> bool" where
  "truthy v = (case v of None \<Rightarrow> False | Some s \<Rightarrow> s \<noteq> [])"

definition or_else :: "string option \<Rightarrow> string \<Rightarrow> string" where
  "or_else v d = (case v of None \<Rightarrow> d | Some s \<Rightarrow> if s = [] then d else s)"

text \<open>Code units removed by \<open>String.prototype.trim\<close> (those that fit a \<open>char\<close>):
  tab, line feed, vertical tab, form feed, carriage return, space, no-break space.\<close>

definition js_whitespace :: "char \<Rightarrow> bool" where
  "js_whitespace c = (of_char c \<in> {9, 10, 11, 12, 13, 32, 160 :: nat})"

definition trim :: "string \<Rightarrow> string" where
  "trim s = rev (dropWhile js_whitespace (rev (dropWhile js_whitespace s)))"


section \<open>utils/format\<close>

definition formatCurrency :: "int \<Rightarrow> string" where
  "formatCurrency v =
     (if v \<ge> 1000000000 then ''$'' @ toFixed 1 (js_div (of_int v) 1000000000) @ ''B''
      else if v \<ge> 1000000 then ''$'' @ toFixed 0 (js_div (of_int v) 1000000) @ ''M''
      else if v \<ge> 1000 then ''$'' @ toFixed 0 (js_div (of_int v) 1000) @ ''K''
      else ''$'' @ show_int v)"

text \<open>\<open>!minutes\<close> holds for \<open>null\<close> and for \<open>0\<close>; \<open>%\<close> takes the sign of the dividend
  and is exact.\<close>

definition js_rem :: "int \<Rightarrow> int \<Rightarrow> int" where
  "js_rem a b = (if a < 0 then - ((- a) mod \<bar>b\<bar>) else a mod \<bar>b\<bar>)"

definition formatRuntime :: "int option \<Rightarrow> string" where
  "formatRuntime minutes =
     (case minutes of
        None \<Rightarrow> ''N/A''
      | Some m \<Rightarrow>
          if m = 0 then ''N/A''
          else (let hours = \<lfloor>js_div (of_int m) 60\<rfloor>; mins = js_rem m 60
                in if hours > 0 then show_int hours @ ''h '' @ show_int mins @ ''m''
                   else show_int mins @ ''m''))"

definition calculateROI :: "int \<Rightarrow> int \<Rightarrow> string" where
  "calculateROI revenue budget =
     (if budget \<le> 0 then ''N/A''
      else (let roi = js_mul (js_div (js_sub (of_int revenue) (of_int budget)) (of_int budget)) 100;
                sign = (if roi \<ge> 0 then ''+'' else '''')
            in sign @ toFixed 0 roi @ ''%''))"


section \<open>types\<close>

text \<open>Fields that the modelled functions never read are left out of the records.\<close>

record MovieBasic =
  basic_id :: int
  title :: string
  poster_path :: "string option"
  release_date :: "string option"

record ScoreBreakdown =
  movie_id :: int
  movie_title :: string
  total_score :: rat
  grade :: string
  summary :: string

datatype winner_side = Movie1 | Movie2 | Tie

datatype confidence_level = Decisive | Clear | Close | VeryClose

record ComparisonResult =
  movie1_id :: int
  movie1_title :: string
  movie1_score :: rat
  movie1_breakdown :: ScoreBreakdown
  movie2_id :: int
  movie2_title :: string
  movie2_score :: rat
  movie2_breakdown :: ScoreBreakdown
  winner :: winner_side
  score_difference :: rat
  confidence :: confidence_level
  verdict :: string

record WeightConfig =
  vote_average :: rat
  vote_count :: rat
  popularity :: rat
  revenue :: rat
  runtime_quality :: rat
  release_recency :: rat
  cast_star_power :: rat

definition DEFAULT_WEIGHTS :: WeightConfig where
  "DEFAULT_WEIGHTS =
     \<lparr>vote_average = to_double (25 / 100), vote_count = to_double (15 / 100),
      popularity = to_double (20 / 100), revenue = to_double (10 / 100),
      runtime_quality = to_double (5 / 100), release_recency = to_double (10 / 100),
      cast_star_power = to_double (15 / 100)\<rparr>"


section \<open>services/api\<close>

text \<open>
  A request as handed to \<open>fetch\<close>, before serialisation: the query string is kept as the
  list of pairs held by the \<open>URLSearchParams\<close> object, the body as the object given to
  \<open>JSON.stringify\<close> (an \<open>undefined\<close> member is \<open>None\<close>).
\<close>

record compare_body =
  body_movie1_id :: int
  body_movie2_id :: int
  body_weights :: "WeightConfig option"

record endpoint =
  path :: string
  params :: "(string \<times> string) list"

record request_init =
  init_method :: "string option"
  init_body :: "compare_body option"

record request =
  url :: endpoint
  headers :: "(string \<times> string) list"
  req_method :: "string option"
  req_body :: "compare_body option"

text \<open>What can be thrown: an \<open>ApiError\<close> (status, message), any other \<open>Error\<close> with its
  message, or a value that is not an \<open>Error\<close>.\<close>

datatype exn = ApiError int string | JsError string | NonError

text \<open>
  The parsed JSON body of a response: its \<open>error\<close> and \<open>detail\<close> members (\<open>None\<close>
  when absent or \<open>null\<close>, otherwise a string, as the API declares them) and its other
  members, typed as the caller expects them.
\<close>

record 'a json_body =
  error_member :: "string option"
  detail_member :: "string option"
  members :: 'a

text \<open>The \<open>success\<close> and \<open>comparison\<close> members of a \<open>CompareResponse\<close>; its \<open>error\<close>
  member is the \<open>error_member\<close> of the body.\<close>

record CompareResponse =
  success :: bool
  comparison :: "ComparisonResult option"

record SearchResponse =
  sr_query :: string
  sr_page :: int
  total_pages :: int
  total_results :: int
  sr_results :: "MovieBasic list"

text \<open>The response of \<open>fetch\<close>; \<open>json\<close> is \<open>Inl\<close> when \<open>response.json()\<close> rejects.\<close>

record 'a response =
  ok :: bool
  status :: int
  json :: "exn + 'a json_body"

datatype 'a fetched = Rejected exn | Resolved "'a response"

definition API_BASE :: string where
  "API_BASE = ''/api''"

definition fetch_request :: "endpoint \<Rightarrow> request_init option \<Rightarrow> request" where
  "fetch_request e options =
     \<lparr>url = e\<lparr>path := API_BASE @ path e\<rparr>,
      headers = [(''Content-Type'', ''application/json'')],
      req_method = (case options of None \<Rightarrow> None | Some i \<Rightarrow> init_method i),
      req_body = (case options of None \<Rightarrow> None | Some i \<Rightarrow> init_body i)\<rparr>"

text \<open>What \<open>fetchApi\<close> does with the answer of \<open>fetch\<close>.\<close>

definition fetch_result :: "'a fetched \<Rightarrow> exn + 'a json_body" where
  "fetch_result answer =
     (case answer of
        Rejected x \<Rightarrow> Inl x
      | Resolved response \<Rightarrow>
          if \<not> ok response then
            (let error = (case json response of
                            Inl _ \<Rightarrow> \<lparr>error_member = Some ''Unknown error'',
                                      detail_member = None, members = ()\<rparr>
                          | Inr b \<Rightarrow> \<lparr>error_member = error_member b,
                                      detail_member = detail_member b, members = ()\<rparr>)
             in Inl (ApiError (status response)
                       (or_else (error_member error)
                          (or_else (detail_member error) ''Request failed''))))
          else (case json response of Inl x \<Rightarrow> Inl x | Inr b \<Rightarrow> Inr b))"

text \<open>The network is a parameter: \<open>net\<close> answers each request.\<close>

definition fetchApi ::
  "(request \<Rightarrow> 'a fetched) \<Rightarrow> endpoint \<Rightarrow> request_init option \<Rightarrow> exn + 'a json_body" where
  "fetchApi net e options = fetch_result (net (fetch_request e options))"

definition search_endpoint :: "string \<Rightarrow> int option \<Rightarrow> endpoint" where
  "search_endpoint query page =
     \<lparr>path = ''/search'',
      params = [(''q'', query), (''page'', show_int (case page of None \<Rightarrow> 1 | Some p \<Rightarrow> p))]\<rparr>"

definition searchMovies ::
  "(request \<Rightarrow> SearchResponse fetched) \<Rightarrow> string \<Rightarrow> int option
     \<Rightarrow> exn + SearchResponse json_body" where
  "searchMovies net query page = fetchApi net (search_endpoint query page) None"

text \<open>\<open>String(w)\<close> on a weight is the runtime's number formatting, taken as the
  parameter \<open>str\<close>.\<close>

definition score_params :: "(rat \<Rightarrow> string) \<Rightarrow> WeightConfig option \<Rightarrow> (string \<times> string) list" where
  "score_params str weights =
     (case weights of
        None \<Rightarrow> []
      | Some w \<Rightarrow>
          [(''vote_average_weight'', str (vote_average w)),
           (''vote_count_weight'', str (vote_count w)),
           (''popularity_weight'', str (popularity w)),
           (''revenue_weight'', str (revenue w)),
           (''runtime_weight'', str (runtime_quality w)),
           (''recency_weight'', str (release_recency w)),
           (''cast_weight'', str (cast_star_power w))])"

definition score_endpoint :: "(rat \<Rightarrow> string) \<Rightarrow> int \<Rightarrow> WeightConfig option \<Rightarrow> endpoint" where
  "score_endpoint str movieId weights =
     \<lparr>path = ''/score/'' @ show_int movieId, params = score_params str weights\<rparr>"

definition getMovieScore ::
  "(request \<Rightarrow> ScoreBreakdown fetched) \<Rightarrow> (rat \<Rightarrow> string) \<Rightarrow> int \<Rightarrow> WeightConfig option
     \<Rightarrow> exn + ScoreBreakdown json_body" where
  "getMovieScore net str movieId weights =
     fetchApi net (score_endpoint str movieId weights) None"

definition compare_init :: "int \<Rightarrow> int \<Rightarrow> WeightConfig option \<Rightarrow> request_init" where
  "compare_init movie1Id movie2Id weights =
     \<lparr>init_method = Some ''POST'',
      init_body = Some \<lparr>body_movie1_id = movie1Id, body_movie2_id = movie2Id,
                        body_weights = weights\<rparr>\<rparr>"

text \<open>The request that \<open>compareMovies\<close> hands to \<open>fetch\<close>.\<close>

definition compare_request :: "int \<Rightarrow> int \<Rightarrow> WeightConfig option \<Rightarrow> request" where
  "compare_request movie1Id movie2Id weights =
     fetch_request \<lparr>path = ''/compare'', params = []\<rparr>
       (Some (compare_init movie1Id movie2Id weights))"

text \<open>What \<open>compareMovies\<close> does with the result of its \<open>fetchApi\<close> call: it throws
  when \<open>!response.success || !response.comparison\<close> and returns the comparison
  otherwise. The presence test comes first here, so that the returned value is at hand.\<close>

definition unwrap_comparison :: "exn + CompareResponse json_body \<Rightarrow> exn + ComparisonResult" where
  "unwrap_comparison fetched_body =
     (case fetched_body of
        Inl x \<Rightarrow> Inl x
      | Inr response \<Rightarrow>
          (case comparison (members response) of
             None \<Rightarrow> Inl (JsError (or_else (error_member response) ''Comparison failed''))
           | Some c \<Rightarrow>
               if \<not> success (members response)
               then Inl (JsError (or_else (error_member response) ''Comparison failed''))
               else Inr c))"

definition compareMovies ::
  "(request \<Rightarrow> CompareResponse fetched) \<Rightarrow> int \<Rightarrow> int \<Rightarrow> WeightConfig option
     \<Rightarrow> exn + ComparisonResult" where
  "compareMovies net movie1Id movie2Id weights =
     unwrap_comparison
       (fetchApi net \<lparr>path = ''/compare'', params = []\<rparr>
          (Some (compare_init movie1Id movie2Id weights)))"


datatype poster_size = W185 | W342 | W500 | Original

fun size_name :: "poster_size \<Rightarrow> string" where
  "size_name W185 = ''w185''"
| "size_name W342 = ''w342''"
| "size_name W500 = ''w500''"
| "size_name Original = ''original''"

text \<open>The second argument is \<open>None\<close> when the caller omits it; \<open>!path\<close> holds for
  \<open>null\<close> and for the empty string.\<close>

definition getPosterUrl :: "string option \<Rightarrow> poster_size option \<Rightarrow> string" where
  "getPosterUrl p sz =
     (let size = (case sz of None \<Rightarrow> W342 | Some s \<Rightarrow> s)
      in case p of
           None \<Rightarrow> ''https://via.placeholder.com/342x513?text=No+Poster''
         | Some s \<Rightarrow>
             if s = [] then ''https://via.placeholder.com/342x513?text=No+Poster''
             else ''https://image.tmdb.org/t/p/'' @ size_name size @ s)"


section \<open>Rendered output\<close>

text \<open>An element carries its tag, its \<open>className\<close> and its children; a child component
  (an icon, a chart) is kept by name.\<close>

datatype node = Text string | Component string | Element string string "node list"

fun children :: "node \<Rightarrow> node list" where
  "children (Element _ _ kids) = kids"
| "children _ = []"

fun className :: "node \<Rightarrow> string" where
  "className (Element _ cls _) = cls"
| "className _ = []"


section \<open>components/WeightSliders\<close>

text \<open>\<open>Object.values(weights)\<close>, in the order of the object's keys.\<close>

definition weight_values :: "WeightConfig \<Rightarrow> rat list" where
  "weight_values w =
     [vote_average w, vote_count w, popularity w, revenue w, runtime_quality w,
      release_recency w, cast_star_power w]"

definition totalWeight :: "WeightConfig \<Rightarrow> rat" where
  "totalWeight w = foldl (\<lambda>sum x. js_add sum x) 0 (weight_values w)"

definition total_indicator :: "WeightConfig \<Rightarrow> node" where
  "total_indicator w =
     Element ''span'' (if totalWeight w > 0 then ''text-primary-400'' else ''text-red-400'')
       [Text (toFixed 0 (js_mul (totalWeight w) 100)), Text ''%'']"

text \<open>The total row is part of the panel that is rendered only while it is expanded.\<close>

definition total_row :: "bool \<Rightarrow> WeightConfig \<Rightarrow> node option" where
  "total_row isExpanded w = (if isExpanded then Some (total_indicator w) else None)"


section \<open>pages/ComparePage\<close>

record compare_page =
  movie1 :: "MovieBasic option"
  movie2 :: "MovieBasic option"
  weights :: WeightConfig
  result :: "ComparisonResult option"
  isLoading :: bool
  error :: "string option"

text \<open>\<open>err instanceof Error ? err.message : 'Comparison failed'\<close>\<close>

fun caught_message :: "exn \<Rightarrow> string" where
  "caught_message (ApiError _ m) = m"
| "caught_message (JsError m) = m"
| "caught_message NonError = ''Comparison failed''"

definition handleCompare ::
  "(request \<Rightarrow> CompareResponse fetched) \<Rightarrow> compare_page \<Rightarrow> compare_page" where
  "handleCompare net st =
     (case movie1 st of
        None \<Rightarrow> st
      | Some m1 \<Rightarrow>
          (case movie2 st of
             None \<Rightarrow> st
           | Some m2 \<Rightarrow>
               (let st1 = st\<lparr>isLoading := True, error := None, result := None\<rparr>;
                    st2 = (case compareMovies net (basic_id m1) (basic_id m2) (Some (weights st)) of
                             Inr c \<Rightarrow> st1\<lparr>result := Some c\<rparr>
                           | Inl err \<Rightarrow> st1\<lparr>error := Some (caught_message err)\<rparr>)
                in st2\<lparr>isLoading := False\<rparr>)))"

text \<open>The \<open>disabled\<close> attribute of the compare button.\<close>

definition compare_disabled :: "compare_page \<Rightarrow> bool" where
  "compare_disabled st = (movie1 st = None \<or> movie2 st = None \<or> isLoading st)"

text \<open>\<open>{error && ...}\<close> and \<open>{result && ...}\<close>: what the error banner and the result
  section show, \<open>None\<close> when they are not rendered.\<close>

definition error_banner :: "compare_page \<Rightarrow> string option" where
  "error_banner st = (if truthy (error st) then error st else None)"

definition result_section :: "compare_page \<Rightarrow> ComparisonResult option" where
  "result_section st = result st"


section \<open>components/ComparisonResult\<close>

definition winner_badge1 :: node where
  "winner_badge1 =
     Element ''span'' ''inline-flex items-center gap-1 text-primary-500 text-sm font-medium''
       [Component ''Trophy'', Text '' Winner'']"

definition winner_badge2 :: node where
  "winner_badge2 =
     Element ''span'' ''inline-flex items-center gap-1 text-blue-500 text-sm font-medium''
       [Component ''Trophy'', Text '' Winner'']"

definition movie1_card :: "ComparisonResult \<Rightarrow> node" where
  "movie1_card r =
     Element ''div''
       (''card p-6 text-center '' @ (if winner r = Movie1 then ''ring-2 ring-primary-500'' else []))
       ([Element ''h3'' ''font-bold text-lg text-white mb-4'' [Text (movie1_title r)],
         Element ''div'' ''flex justify-center mb-4'' [Component ''ScoreGauge'']]
        @ (if winner r = Movie1 then [winner_badge1] else []))"

definition movie2_card :: "ComparisonResult \<Rightarrow> node" where
  "movie2_card r =
     Element ''div''
       (''card p-6 text-center '' @ (if winner r = Movie2 then ''ring-2 ring-blue-500'' else []))
       ([Element ''h3'' ''font-bold text-lg text-white mb-4'' [Text (movie2_title r)],
         Element ''div'' ''flex justify-center mb-4'' [Component ''ScoreGauge'']]
        @ (if winner r = Movie2 then [winner_badge2] else []))"

definition versus :: "ComparisonResult \<Rightarrow> node" where
  "versus r =
     Element ''div'' ''text-center''
       [Element ''div'' ''text-4xl font-bold text-gray-600'' [Text ''VS''],
        Element ''div'' ''text-sm text-gray-500 mt-2''
          [Text ''Score Difference: '', Text (toFixed 1 (score_difference r)), Text '' pts'']]"

definition score_comparison :: "ComparisonResult \<Rightarrow> node" where
  "score_comparison r =
     Element ''div'' ''grid md:grid-cols-3 gap-6 items-center''
       [movie1_card r, versus r, movie2_card r]"

text \<open>A "Winner" badge is a \<open>span\<close> holding the text \<open>Winner\<close> after its icon; the
  search goes through the whole tree.\<close>

fun has_badge :: "node \<Rightarrow> bool" where
  "has_badge (Text _) = False"
| "has_badge (Component _) = False"
| "has_badge (Element tag cls kids) =
     ((tag = ''span'' \<and> Text '' Winner'' \<in> set kids) \<or> list_ex has_badge kids)"


section \<open>components/SearchBar\<close>

text \<open>
  The component's state, with the pending debounce timer (\<open>debounce\<close>: the query its
  callback closes over, \<open>None\<close> when no timer is pending), the requests sent so far and
  the outcomes of the \<open>searchMovies\<close> calls that have not settled yet.
\<close>

record search_bar =
  query :: string
  results :: "MovieBasic list"
  sb_isLoading :: bool
  isOpen :: bool
  sb_error :: "string option"
  debounce :: "string option"
  sent :: "request list"
  awaited :: "(exn + SearchResponse json_body) list"

text \<open>The request that \<open>searchMovies(q)\<close> hands to \<open>fetch\<close>.\<close>

definition search_request :: "string \<Rightarrow> request" where
  "search_request q = fetch_request (search_endpoint q None) None"

text \<open>The body of the debounce effect, run when \<open>query\<close> has changed to \<open>q\<close>.\<close>

definition search_effect :: "string \<Rightarrow> search_bar \<Rightarrow> search_bar" where
  "search_effect q st =
     (let st1 = st\<lparr>query := q, debounce := None\<rparr>
      in if length (trim q) < 2 then st1\<lparr>results := [], isOpen := False\<rparr>
         else st1\<lparr>sb_isLoading := True, sb_error := None, debounce := Some q\<rparr>)"

definition setQuery :: "string \<Rightarrow> search_bar \<Rightarrow> search_bar" where
  "setQuery q st = (if q = query st then st else search_effect q st)"

text \<open>The timer callback up to its \<open>await\<close>: it calls \<open>searchMovies\<close> with the query it
  closed over, which sends the request; the outcome is awaited.\<close>

definition timer_fired :: "(request \<Rightarrow> SearchResponse fetched) \<Rightarrow> search_bar \<Rightarrow> search_bar" where
  "timer_fired net st =
     (case debounce st of
        None \<Rightarrow> st
      | Some q \<Rightarrow>
          st\<lparr>debounce := None, sent := sent st @ [search_request q],
             awaited := awaited st @ [searchMovies net q None]\<rparr>)"

text \<open>The rest of the callback, run when the \<open>i\<close>-th awaited call settles, at whatever
  later time and in whatever order: \<open>try\<close>, \<open>catch\<close> and \<open>finally\<close>.\<close>

definition search_settled :: "nat \<Rightarrow> search_bar \<Rightarrow> search_bar" where
  "search_settled i st =
     (if i < length (awaited st) then
        (let st1 = st\<lparr>awaited := take i (awaited st) @ drop (Suc i) (awaited st)\<rparr>;
             st2 = (case awaited st ! i of
                      Inr response \<Rightarrow>
                        st1\<lparr>results := take 8 (sr_results (members response)), isOpen := True\<rparr>
                    | Inl _ \<Rightarrow> st1\<lparr>sb_error := Some ''Search failed. Please try again.'',
                                     results := []\<rparr>)
         in st2\<lparr>sb_isLoading := False\<rparr>)
      else st)"

definition handleClear :: "search_bar \<Rightarrow> search_bar" where
  "handleClear st = (setQuery [] st)\<lparr>results := [], isOpen := False\<rparr>"

datatype sb_event =
  Typed string | TimerFired | Settled nat | Cleared | Selected | Focused | ClickedOutside

fun sb_step :: "(request \<Rightarrow> SearchResponse fetched) \<Rightarrow> sb_event \<Rightarrow> search_bar \<Rightarrow> search_bar" where
  "sb_step net (Typed q) st = setQuery q st"
| "sb_step net TimerFired st = timer_fired net st"
| "sb_step net (Settled i) st = search_settled i st"
| "sb_step net Cleared st = handleClear st"
| "sb_step net Selected st = handleClear st"
| "sb_step net Focused st = (if results st \<noteq> [] then st\<lparr>isOpen := True\<rparr> else st)"
| "sb_step net ClickedOutside st = st\<lparr>isOpen := False\<rparr>"

fun sb_run :: "(request \<Rightarrow> SearchResponse fetched) \<Rightarrow> sb_event list \<Rightarrow> search_bar \<Rightarrow> search_bar" where
  "sb_run net [] st = st"
| "sb_run net (e # es) st = sb_run net es (sb_step net e st)"

text \<open>The state after mounting: the effect has run once on the empty query.\<close>

definition sb_mounted :: search_bar where
  "sb_mounted =
     \<lparr>query = [], results = [], sb_isLoading = False, isOpen = False, sb_error = None,
      debounce = None, sent = [], awaited = []\<rparr>"


text \<open>
  The invariant of the search bar: every request sent carries a query of at least two
  characters after trimming, and so does the query held by a pending timer.
\<close>

definition sb_inv :: "search_bar \<Rightarrow> bool" where
  "sb_inv st =
     (list_all (\<lambda>r. list_ex (\<lambda>(k, v). k = ''q'' \<and> 2 \<le> length (trim v)) (params (url r)))
        (sent st)
      \<and> (case debounce st of None \<Rightarrow> True | Some q \<Rightarrow> 2 \<le> length (trim q)))"


section \<open>Example values\<close>

definition tie_example :: ComparisonResult where
  "tie_example =
     \<lparr>movie1_id = 1, movie1_title = ''Heat'', movie1_score = 80,
      movie1_breakdown = \<lparr>movie_id = 1, movie_title = ''Heat'', total_score = 80,
                          grade = ''A-'', summary = []\<rparr>,
      movie2_id = 2, movie2_title = ''Ronin'', movie2_score = 80,
      movie2_breakdown = \<lparr>movie_id = 2, movie_title = ''Ronin'', total_score = 80,
                          grade = ''A-'', summary = []\<rparr>,
      winner = Tie, score_difference = 0, confidence = VeryClose, verdict = ''Even''\<rparr>"

definition zero_weights :: WeightConfig where
  "zero_weights =
     \<lparr>vote_average = 0, vote_count = 0, popularity = 0, revenue = 0, runtime_quality = 0,
      release_recency = 0, cast_star_power = 0\<rparr>"

definition page_example :: compare_page where
  "page_example =
     \<lparr>movie1 = Some \<lparr>basic_id = 1, title = ''Heat'', poster_path = None, release_date = None\<rparr>,
      movie2 = Some \<lparr>basic_id = 2, title = ''Ronin'', poster_path = None, release_date = None\<rparr>,
      weights = DEFAULT_WEIGHTS, result = None, isLoading = False, error = None\<rparr>"

text \<open>A network that answers every request with the same response, and one that is down.\<close>

definition answering :: "'a response \<Rightarrow> request \<Rightarrow> 'a fetched" where
  "answering resp r = Resolved resp"

definition offline :: "request \<Rightarrow> 'a fetched" where
  "offline r = Rejected (JsError ''Failed to fetch'')"

definition compare_ok :: "CompareResponse response" where
  "compare_ok =
     \<lparr>ok = True, status = 200,
      json = Inr \<lparr>error_member = None, detail_member = None,
                  members = \<lparr>success = True, comparison = Some tie_example\<rparr>\<rparr>\<rparr>"

definition compare_refused :: "CompareResponse response" where
  "compare_refused =
     \<lparr>ok = True, status = 200,
      json = Inr \<lparr>error_member = Some ''Movie not found'', detail_member = None,
                  members = \<lparr>success = False, comparison = None\<rparr>\<rparr>\<rparr>"

definition compare_unavailable :: "CompareResponse response" where
  "compare_unavailable =
     \<lparr>ok = False, status = 503,
      json = Inr \<lparr>error_member = Some ''Scoring service unavailable'', detail_member = None,
                  members = \<lparr>success = False, comparison = None\<rparr>\<rparr>\<rparr>"

definition compare_not_found :: "CompareResponse response" where
  "compare_not_found =
     \<lparr>ok = False, status = 404,
      json = Inr \<lparr>error_member = None, detail_member = Some ''Not Found'',
                  members = \<lparr>success = False, comparison = None\<rparr>\<rparr>\<rparr>"

definition search_throttled :: "SearchResponse response" where
  "search_throttled =
     \<lparr>ok = False, status = 429,
      json = Inr \<lparr>error_member = Some ''Rate limit exceeded'', detail_member = None,
                  members = \<lparr>sr_query = [], sr_page = 1, total_pages = 0, total_results = 0,
                             sr_results = []\<rparr>\<rparr>\<rparr>"

definition compare_misreported :: "CompareResponse response" where
  "compare_misreported =
     \<lparr>ok = False, status = 500,
      json = Inr \<lparr>error_member = None, detail_member = None,
                  members = \<lparr>success = True, comparison = Some tie_example\<rparr>\<rparr>\<rparr>"

text \<open>A network that accepts a comparison only when the request body carries exactly the
  weights \<open>w\<close>.\<close>

definition expecting_weights :: "WeightConfig \<Rightarrow> request \<Rightarrow> CompareResponse fetched" where
  "expecting_weights w r =
     (case req_body r of
        None \<Rightarrow> Rejected NonError
      | Some b \<Rightarrow> if body_weights b = Some w then Resolved compare_ok else Rejected NonError)"


section \<open>Formatting helpers\<close>

text \<open>C7: \<open>formatCurrency\<close> returns \<open>$1.5B\<close> for 1500000000, \<open>$2M\<close> for 2000000 and
  \<open>$500\<close> for 500.\<close>

theorem formatCurrency_examples:
  "formatCurrency 1500000000 = ''$1.5B'' \<and> formatCurrency 2000000 = ''$2M''
     \<and> formatCurrency 500 = ''$500''"
  by code_simp

text \<open>C8: \<open>formatRuntime\<close> returns \<open>2h 5m\<close> for 125 and \<open>N/A\<close> for \<open>null\<close>.\<close>

theorem formatRuntime_examples:
  "formatRuntime (Some 125) = ''2h 5m'' \<and> formatRuntime None = ''N/A''"
  by code_simp

lemma calculateROI_doubling: "calculateROI 200 100 = ''+100%''"
  by code_simp

text \<open>C9: \<open>calculateROI\<close> returns \<open>+100%\<close> for revenue 200 and budget 100, and \<open>N/A\<close>
  whenever the budget is 0, whatever the revenue (50 for one).\<close>

theorem calculateROI_examples:
  "calculateROI 200 100 = ''+100%'' \<and> calculateROI 50 0 = ''N/A''
     \<and> (\<forall>revenue. calculateROI revenue 0 = ''N/A'')"
proof -
  have "\<forall>revenue. calculateROI revenue 0 = ''N/A''"
    by (simp add: calculateROI_def)
  then show ?thesis
    using calculateROI_doubling by simp
qed

text \<open>C10: \<open>getPosterUrl\<close> is total over nullable paths: for every size a \<open>null\<close> or
  empty path gives the fixed placeholder URL, and every other path gives the image base
  URL followed by the size and the path, the size being \<open>w342\<close> when it is omitted.\<close>

theorem getPosterUrl_total:
  "getPosterUrl None sz = ''https://via.placeholder.com/342x513?text=No+Poster''
   \<and> getPosterUrl (Some []) sz = ''https://via.placeholder.com/342x513?text=No+Poster''
   \<and> (p \<noteq> [] \<longrightarrow>
        getPosterUrl (Some p) (Some s) = ''https://image.tmdb.org/t/p/'' @ size_name s @ p
      \<and> getPosterUrl (Some p) None = ''https://image.tmdb.org/t/p/'' @ ''w342'' @ p)"
  by (simp add: getPosterUrl_def)

theorem getPosterUrl_total_witness:
  "getPosterUrl None (Some W500) = ''https://via.placeholder.com/342x513?text=No+Poster''
   \<and> getPosterUrl (Some []) (Some W500) = ''https://via.placeholder.com/342x513?text=No+Poster''
   \<and> ''/abc.jpg'' \<noteq> []
   \<and> getPosterUrl (Some ''/abc.jpg'') (Some W185) = ''https://image.tmdb.org/t/p/w185/abc.jpg''
   \<and> getPosterUrl (Some ''/abc.jpg'') None = ''https://image.tmdb.org/t/p/w342/abc.jpg''"
  using getPosterUrl_total [of "Some W500" "''/abc.jpg''" W185]
  by simp


section \<open>The requests the client sends\<close>

lemma compareMovies_request:
  "compareMovies net m1 m2 w = unwrap_comparison (fetch_result (net (compare_request m1 m2 w)))"
  by (simp add: compareMovies_def fetchApi_def compare_request_def)

lemma compare_request_fields:
  "compare_request m1 m2 w =
     \<lparr>url = \<lparr>path = ''/api/compare'', params = []\<rparr>,
      headers = [(''Content-Type'', ''application/json'')],
      req_method = Some ''POST'',
      req_body = Some \<lparr>body_movie1_id = m1, body_movie2_id = m2, body_weights = w\<rparr>\<rparr>"
  by (simp add: compare_request_def fetch_request_def compare_init_def API_BASE_def)

lemma getMovieScore_request:
  "getMovieScore net str movieId ws =
     fetch_result (net \<lparr>url = \<lparr>path = ''/api/score/'' @ show_int movieId,
                              params = score_params str ws\<rparr>,
                        headers = [(''Content-Type'', ''application/json'')],
                        req_method = None, req_body = None\<rparr>)"
  by (simp add: getMovieScore_def fetchApi_def fetch_request_def score_endpoint_def API_BASE_def)

lemma searchMovies_request: "searchMovies net q None = fetch_result (net (search_request q))"
  by (simp add: searchMovies_def fetchApi_def search_request_def)

lemma handleCompare_selected:
  assumes "movie1 st = Some a" "movie2 st = Some b"
  shows "handleCompare net st =
     (case compareMovies net (basic_id a) (basic_id b) (Some (weights st)) of
        Inr c \<Rightarrow> st\<lparr>isLoading := False, error := None, result := Some c\<rparr>
      | Inl x \<Rightarrow> st\<lparr>isLoading := False, error := Some (caught_message x), result := None\<rparr>)"
  using assms by (simp add: handleCompare_def Let_def split: sum.splits)

text \<open>C3: for every \<open>WeightConfig\<close> the client forwards the seven weights as they are held
  in the page's state: \<open>handleCompare\<close> passes the state's weights to \<open>compareMovies\<close>,
  which puts the object unchanged into the body of its POST request, and
  \<open>getMovieScore\<close> sets each query parameter to the string of the field itself. Nothing
  is normalised, validated or clamped on the way.\<close>

theorem weights_forwarded_verbatim:
  "compareMovies net m1 m2 ws =
     unwrap_comparison (fetch_result (net
       \<lparr>url = \<lparr>path = ''/api/compare'', params = []\<rparr>,
        headers = [(''Content-Type'', ''application/json'')],
        req_method = Some ''POST'',
        req_body = Some \<lparr>body_movie1_id = m1, body_movie2_id = m2, body_weights = ws\<rparr>\<rparr>))
   \<and> getMovieScore net' str movieId (Some w) =
       fetch_result (net'
         \<lparr>url = \<lparr>path = ''/api/score/'' @ show_int movieId,
                 params = [(''vote_average_weight'', str (vote_average w)),
                           (''vote_count_weight'', str (vote_count w)),
                           (''popularity_weight'', str (popularity w)),
                           (''revenue_weight'', str (revenue w)),
                           (''runtime_weight'', str (runtime_quality w)),
                           (''recency_weight'', str (release_recency w)),
                           (''cast_weight'', str (cast_star_power w))]\<rparr>,
          headers = [(''Content-Type'', ''application/json'')],
          req_method = None, req_body = None\<rparr>)
   \<and> (movie1 st = Some a \<and> movie2 st = Some b \<longrightarrow>
        handleCompare net st =
          (case compareMovies net (basic_id a) (basic_id b) (Some (weights st)) of
             Inr c \<Rightarrow> st\<lparr>isLoading := False, error := None, result := Some c\<rparr>
           | Inl x \<Rightarrow> st\<lparr>isLoading := False, error := Some (caught_message x),
                          result := None\<rparr>))"
proof (intro conjI impI)
  show "compareMovies net m1 m2 ws =
     unwrap_comparison (fetch_result (net
       \<lparr>url = \<lparr>path = ''/api/compare'', params = []\<rparr>,
        headers = [(''Content-Type'', ''application/json'')],
        req_method = Some ''POST'',
        req_body = Some \<lparr>body_movie1_id = m1, body_movie2_id = m2, body_weights = ws\<rparr>\<rparr>))"
    by (simp add: compareMovies_request compare_request_fields)
next
  show "getMovieScore net' str movieId (Some w) =
       fetch_result (net'
         \<lparr>url = \<lparr>path = ''/api/score/'' @ show_int movieId,
                 params = [(''vote_average_weight'', str (vote_average w)),
                           (''vote_count_weight'', str (vote_count w)),
                           (''popularity_weight'', str (popularity w)),
                           (''revenue_weight'', str (revenue w)),
                           (''runtime_weight'', str (runtime_quality w)),
                           (''recency_weight'', str (release_recency w)),
                           (''cast_weight'', str (cast_star_power w))]\<rparr>,
          headers = [(''Content-Type'', ''application/json'')],
          req_method = None, req_body = None\<rparr>)"
    by (simp add: getMovieScore_request score_params_def)
next
  assume "movie1 st = Some a \<and> movie2 st = Some b"
  then show "handleCompare net st =
          (case compareMovies net (basic_id a) (basic_id b) (Some (weights st)) of
             Inr c \<Rightarrow> st\<lparr>isLoading := False, error := None, result := Some c\<rparr>
           | Inl x \<Rightarrow> st\<lparr>isLoading := False, error := Some (caught_message x),
                          result := None\<rparr>)"
    by (simp add: handleCompare_selected)
qed

theorem weights_forwarded_verbatim_witness:
  "movie1 (page_example\<lparr>weights := zero_weights\<lparr>popularity := 7\<rparr>\<rparr>)
     = Some \<lparr>basic_id = 1, title = ''Heat'', poster_path = None, release_date = None\<rparr>
   \<and> movie2 (page_example\<lparr>weights := zero_weights\<lparr>popularity := 7\<rparr>\<rparr>)
     = Some \<lparr>basic_id = 2, title = ''Ronin'', poster_path = None, release_date = None\<rparr>
   \<and> compareMovies (expecting_weights (zero_weights\<lparr>popularity := 7\<rparr>)) 1 2
         (Some (zero_weights\<lparr>popularity := 7\<rparr>))
       = Inr tie_example
   \<and> handleCompare (expecting_weights (zero_weights\<lparr>popularity := 7\<rparr>))
         (page_example\<lparr>weights := zero_weights\<lparr>popularity := 7\<rparr>\<rparr>)
       = page_example\<lparr>weights := zero_weights\<lparr>popularity := 7\<rparr>,
                        result := Some tie_example\<rparr>"
proof -
  let ?w = "zero_weights\<lparr>popularity := 7\<rparr>"
  let ?st = "page_example\<lparr>weights := ?w\<rparr>"
  let ?a = "\<lparr>basic_id = 1, title = ''Heat'', poster_path = None, release_date = None\<rparr>"
  let ?b = "\<lparr>basic_id = 2, title = ''Ronin'', poster_path = None, release_date = None\<rparr>"
  have sel: "movie1 ?st = Some ?a \<and> movie2 ?st = Some ?b \<and> weights ?st = ?w"
    by (simp add: page_example_def)
  have call: "compareMovies (expecting_weights ?w) 1 2 (Some ?w) = Inr tie_example"
    using weights_forwarded_verbatim [where net = "expecting_weights ?w" and ?m1.0 = 1
        and ?m2.0 = 2 and ws = "Some ?w"]
    by (simp add: expecting_weights_def compare_ok_def fetch_result_def unwrap_comparison_def)
  have "handleCompare (expecting_weights ?w) ?st = ?st\<lparr>result := Some tie_example\<rparr>"
    using weights_forwarded_verbatim [where net = "expecting_weights ?w" and st = ?st
        and a = ?a and b = ?b] sel call
    by (simp add: page_example_def)
  with sel call show ?thesis by simp
qed


section \<open>The comparison call and its failures\<close>

lemma compareMovies_Inr_iff:
  "(compareMovies net m1 m2 w = Inr c) =
     (\<exists>resp b. net (compare_request m1 m2 w) = Resolved resp \<and> ok resp \<and> json resp = Inr b
        \<and> success (members b) \<and> comparison (members b) = Some c)"
  by (auto simp: compareMovies_request unwrap_comparison_def fetch_result_def Let_def
      split: fetched.splits sum.splits option.splits if_splits)

lemma compareMovies_refused:
  assumes "net (compare_request m1 m2 w) = Resolved resp" "ok resp" "json resp = Inr b"
    "\<not> success (members b) \<or> comparison (members b) = None"
  shows "compareMovies net m1 m2 w = Inl (JsError (or_else (error_member b) ''Comparison failed''))"
  using assms
  by (auto simp: compareMovies_request unwrap_comparison_def fetch_result_def split: option.splits)

lemma fetch_result_not_ok:
  assumes "\<not> ok resp" "json resp = Inr b"
  shows "fetch_result (Resolved resp) =
     Inl (ApiError (status resp)
            (or_else (error_member b) (or_else (detail_member b) ''Request failed'')))"
  using assms by (simp add: fetch_result_def)

lemma handleCompare_failed:
  assumes "movie1 st = Some a" "movie2 st = Some b"
    "compareMovies net (basic_id a) (basic_id b) (Some (weights st)) = Inl x"
  shows "handleCompare net st
      = st\<lparr>isLoading := False, error := Some (caught_message x), result := None\<rparr>"
  using assms by (simp add: handleCompare_selected [of st a b])

lemma compareMovies_not_ok:
  assumes "net (compare_request m1 m2 w) = Resolved resp" "\<not> ok resp" "json resp = Inr b"
  shows "compareMovies net m1 m2 w =
     Inl (ApiError (status resp)
            (or_else (error_member b) (or_else (detail_member b) ''Request failed'')))"
  using assms by (simp add: compareMovies_request unwrap_comparison_def fetch_result_not_ok)

text \<open>C1 (amended): the comparison call is atomic. For every response to
  \<open>compareMovies\<close>, either a complete \<open>ComparisonResult\<close> is returned, which happens
  exactly when the response is ok, its \<open>success\<close> flag is true and its \<open>comparison\<close> field
  is present, and then that field is the result; or the call fails by throwing an error,
  and whenever the response's \<open>error\<close> member is a non-empty string the thrown message
  is that string. No partial comparison reaches the caller. In \<open>ComparePage\<close> a failed
  comparison leaves \<open>result\<close> null, stores the caught message in \<open>error\<close>, and only the
  error banner can show.\<close>

theorem comparison_atomic:
  "((compareMovies net m1 m2 w = Inr c) =
      (\<exists>resp b. net (compare_request m1 m2 w) = Resolved resp \<and> ok resp \<and> json resp = Inr b
         \<and> success (members b) \<and> comparison (members b) = Some c))
   \<and> ((\<exists>c'. compareMovies net m1 m2 w = Inr c') \<or> (\<exists>x'. compareMovies net m1 m2 w = Inl x'))
   \<and> (net (compare_request m1 m2 w) = Resolved resp' \<and> json resp' = Inr b'
        \<and> (\<not> ok resp' \<or> \<not> success (members b') \<or> comparison (members b') = None)
        \<and> error_member b' = Some e \<and> e \<noteq> [] \<longrightarrow>
        compareMovies net m1 m2 w
          = Inl (if ok resp' then JsError e else ApiError (status resp') e)
        \<and> (\<exists>x'. compareMovies net m1 m2 w = Inl x' \<and> caught_message x' = e))
   \<and> (movie1 st = Some a \<and> movie2 st = Some b
        \<and> compareMovies net (basic_id a) (basic_id b) (Some (weights st)) = Inl x \<longrightarrow>
        result (handleCompare net st) = None
        \<and> result_section (handleCompare net st) = None
        \<and> error (handleCompare net st) = Some (caught_message x)
        \<and> error_banner (handleCompare net st)
            = (if caught_message x = [] then None else Some (caught_message x))
        \<and> \<not> isLoading (handleCompare net st))"
proof (intro conjI impI)
  show "(compareMovies net m1 m2 w = Inr c) =
      (\<exists>resp b. net (compare_request m1 m2 w) = Resolved resp \<and> ok resp \<and> json resp = Inr b
         \<and> success (members b) \<and> comparison (members b) = Some c)"
    by (rule compareMovies_Inr_iff)
next
  show "(\<exists>c'. compareMovies net m1 m2 w = Inr c') \<or> (\<exists>x'. compareMovies net m1 m2 w = Inl x')"
    by (cases "compareMovies net m1 m2 w") auto
next
  assume r: "net (compare_request m1 m2 w) = Resolved resp' \<and> json resp' = Inr b'
        \<and> (\<not> ok resp' \<or> \<not> success (members b') \<or> comparison (members b') = None)
        \<and> error_member b' = Some e \<and> e \<noteq> []"
  show thrown: "compareMovies net m1 m2 w
      = Inl (if ok resp' then JsError e else ApiError (status resp') e)"
  proof (cases "ok resp'")
    case True
    with r have "compareMovies net m1 m2 w
        = Inl (JsError (or_else (error_member b') ''Comparison failed''))"
      by (intro compareMovies_refused) auto
    with r True show ?thesis by (simp add: or_else_def)
  next
    case False
    with r have "compareMovies net m1 m2 w
        = Inl (ApiError (status resp')
                 (or_else (error_member b') (or_else (detail_member b') ''Request failed'')))"
      by (intro compareMovies_not_ok) auto
    with r False show ?thesis by (simp add: or_else_def)
  qed
  show "\<exists>x'. compareMovies net m1 m2 w = Inl x' \<and> caught_message x' = e"
    using thrown by (cases "ok resp'") simp_all
next
  assume f: "movie1 st = Some a \<and> movie2 st = Some b
        \<and> compareMovies net (basic_id a) (basic_id b) (Some (weights st)) = Inl x"
  then have h: "handleCompare net st
      = st\<lparr>isLoading := False, error := Some (caught_message x), result := None\<rparr>"
    by (simp add: handleCompare_failed)
  show "result (handleCompare net st) = None" by (simp add: h)
  show "result_section (handleCompare net st) = None" by (simp add: h result_section_def)
  show "error (handleCompare net st) = Some (caught_message x)" by (simp add: h)
  show "error_banner (handleCompare net st)
            = (if caught_message x = [] then None else Some (caught_message x))"
    by (simp add: h error_banner_def truthy_def)
  show "\<not> isLoading (handleCompare net st)" by (simp add: h)
qed

theorem comparison_atomic_witness:
  "compareMovies (answering compare_ok) 1 2 (Some DEFAULT_WEIGHTS) = Inr tie_example
   \<and> compareMovies (answering compare_refused) 1 2 (Some DEFAULT_WEIGHTS)
       = Inl (JsError ''Movie not found'')
   \<and> compareMovies (answering compare_unavailable) 1 2 (Some DEFAULT_WEIGHTS)
       = Inl (ApiError 503 ''Scoring service unavailable'')
   \<and> result (handleCompare (answering compare_refused) page_example) = None
   \<and> error (handleCompare (answering compare_refused) page_example) = Some ''Movie not found''
   \<and> error_banner (handleCompare (answering compare_refused) page_example)
       = Some ''Movie not found''
   \<and> result_section (handleCompare (answering compare_refused) page_example) = None"
proof -
  let ?a = "\<lparr>basic_id = 1, title = ''Heat'', poster_path = None, release_date = None\<rparr>"
  let ?b = "\<lparr>basic_id = 2, title = ''Ronin'', poster_path = None, release_date = None\<rparr>"
  have good: "compareMovies (answering compare_ok) 1 2 (Some DEFAULT_WEIGHTS) = Inr tie_example"
    using comparison_atomic [where net = "answering compare_ok" and ?m1.0 = 1 and ?m2.0 = 2
        and w = "Some DEFAULT_WEIGHTS" and c = tie_example]
    by (simp add: answering_def compare_ok_def)
  have bad: "compareMovies (answering compare_refused) 1 2 (Some DEFAULT_WEIGHTS)
       = Inl (JsError ''Movie not found'')"
    using comparison_atomic [where net = "answering compare_refused" and ?m1.0 = 1
        and ?m2.0 = 2 and w = "Some DEFAULT_WEIGHTS" and resp' = compare_refused
        and e = "''Movie not found''"
        and b' = "\<lparr>error_member = Some ''Movie not found'', detail_member = None,
          members = \<lparr>success = False, comparison = None\<rparr>\<rparr>"]
    by (simp add: answering_def compare_refused_def)
  have down: "compareMovies (answering compare_unavailable) 1 2 (Some DEFAULT_WEIGHTS)
       = Inl (ApiError 503 ''Scoring service unavailable'')"
    using comparison_atomic [where net = "answering compare_unavailable" and ?m1.0 = 1
        and ?m2.0 = 2 and w = "Some DEFAULT_WEIGHTS" and resp' = compare_unavailable
        and e = "''Scoring service unavailable''"
        and b' = "\<lparr>error_member = Some ''Scoring service unavailable'', detail_member = None,
          members = \<lparr>success = False, comparison = None\<rparr>\<rparr>"]
    by (simp add: answering_def compare_unavailable_def)
  have page: "movie1 page_example = Some ?a \<and> movie2 page_example = Some ?b
      \<and> weights page_example = DEFAULT_WEIGHTS"
    by (simp add: page_example_def)
  have shown: "result (handleCompare (answering compare_refused) page_example) = None
   \<and> result_section (handleCompare (answering compare_refused) page_example) = None
   \<and> error (handleCompare (answering compare_refused) page_example) = Some ''Movie not found''
   \<and> error_banner (handleCompare (answering compare_refused) page_example)
       = Some ''Movie not found''"
    using comparison_atomic [where net = "answering compare_refused" and st = page_example
        and a = ?a and b = ?b and x = "JsError ''Movie not found''"] page bad
    by simp
  from good bad down shown show ?thesis by simp
qed

text \<open>The claim as written fails on two responses. Where the \<open>error\<close> member is present
  and is the empty string, the thrown message is \<open>Comparison failed\<close>, not the member.
  Where the response is not ok, no result is returned although the \<open>success\<close> flag is true
  and the \<open>comparison\<close> field is present.\<close>

theorem comparison_atomic_counterexample:
  "compareMovies
     (answering \<lparr>ok = True, status = 200,
                 json = Inr \<lparr>error_member = Some [], detail_member = None,
                             members = \<lparr>success = False, comparison = None\<rparr>\<rparr>\<rparr>)
     1 2 None
   = Inl (JsError ''Comparison failed'')
   \<and> compareMovies
     (answering \<lparr>ok = True, status = 200,
                 json = Inr \<lparr>error_member = Some [], detail_member = None,
                             members = \<lparr>success = False, comparison = None\<rparr>\<rparr>\<rparr>)
     1 2 None
   \<noteq> Inl (JsError [])
   \<and> compareMovies
     (answering \<lparr>ok = False, status = 500,
                 json = Inr \<lparr>error_member = None, detail_member = None,
                             members = \<lparr>success = True, comparison = Some tie_example\<rparr>\<rparr>\<rparr>)
     1 2 None
   = Inl (ApiError 500 ''Request failed'')"
  by (simp add: compareMovies_request unwrap_comparison_def fetch_result_def answering_def
      or_else_def)

text \<open>C2 (amended): for every response that is not ok and whose JSON body could be read,
  \<open>fetchApi\<close> throws an \<open>ApiError\<close> with the response's status whose message is exactly
  the \<open>error\<close> member when that is a non-empty string, and exactly the \<open>detail\<close> member
  when \<open>error\<close> is absent, \<open>null\<close> or empty and \<open>detail\<close> is a non-empty string. On the
  compare page that message, unchanged, is what \<open>handleCompare\<close> stores in \<open>error\<close> and
  the banner shows.\<close>

theorem api_error_message_surfaced:
  "(\<not> ok resp \<and> json resp = Inr body \<longrightarrow>
      (\<forall>e. error_member body = Some e \<and> e \<noteq> [] \<longrightarrow>
             fetch_result (Resolved resp) = Inl (ApiError (status resp) e))
      \<and> (\<forall>d. (error_member body = None \<or> error_member body = Some [])
               \<and> detail_member body = Some d \<and> d \<noteq> [] \<longrightarrow>
             fetch_result (Resolved resp) = Inl (ApiError (status resp) d)))
   \<and> (movie1 st = Some a \<and> movie2 st = Some b
        \<and> net (compare_request (basic_id a) (basic_id b) (Some (weights st))) = Resolved resp'
        \<and> \<not> ok resp' \<and> json resp' = Inr body' \<longrightarrow>
      (\<forall>e. error_member body' = Some e \<and> e \<noteq> [] \<longrightarrow>
             error (handleCompare net st) = Some e
             \<and> error_banner (handleCompare net st) = Some e
             \<and> result (handleCompare net st) = None)
      \<and> (\<forall>d. (error_member body' = None \<or> error_member body' = Some [])
               \<and> detail_member body' = Some d \<and> d \<noteq> [] \<longrightarrow>
             error (handleCompare net st) = Some d
             \<and> error_banner (handleCompare net st) = Some d
             \<and> result (handleCompare net st) = None))"
proof -
  have api: "fetch_result (Resolved r) = Inl (ApiError (status r) m)"
    if "\<not> ok r" "json r = Inr bd"
      "(error_member bd = Some m \<and> m \<noteq> [])
       \<or> ((error_member bd = None \<or> error_member bd = Some [])
           \<and> detail_member bd = Some m \<and> m \<noteq> [])"
    for r :: "'c response" and bd m
    using that by (auto simp: fetch_result_not_ok or_else_def)
  have ui: "error (handleCompare net st) = Some m
        \<and> error_banner (handleCompare net st) = Some m
        \<and> result (handleCompare net st) = None"
    if sel: "movie1 st = Some a" "movie2 st = Some b"
      and ans: "net (compare_request (basic_id a) (basic_id b) (Some (weights st))) = Resolved resp'"
      and bad: "\<not> ok resp'" "json resp' = Inr body'"
      and msg: "(error_member body' = Some m \<and> m \<noteq> [])
       \<or> ((error_member body' = None \<or> error_member body' = Some [])
           \<and> detail_member body' = Some m \<and> m \<noteq> [])"
    for m
  proof -
    have ne: "m \<noteq> []" using msg by auto
    have "fetch_result (Resolved resp') = Inl (ApiError (status resp') m)"
      using bad msg by (rule api)
    then have "compareMovies net (basic_id a) (basic_id b) (Some (weights st))
        = Inl (ApiError (status resp') m)"
      using ans by (simp add: compareMovies_request unwrap_comparison_def)
    then have "handleCompare net st
        = st\<lparr>isLoading := False, error := Some m, result := None\<rparr>"
      using sel by (simp add: handleCompare_failed)
    then show ?thesis
      using ne by (simp add: error_banner_def truthy_def)
  qed
  show ?thesis
    using api [of resp body] ui by blast
qed

theorem api_error_message_surfaced_witness:
  "fetch_result (Resolved compare_unavailable)
     = Inl (ApiError 503 ''Scoring service unavailable'')
   \<and> fetch_result (Resolved compare_not_found) = Inl (ApiError 404 ''Not Found'')
   \<and> error (handleCompare (answering compare_unavailable) page_example)
       = Some ''Scoring service unavailable''
   \<and> error_banner (handleCompare (answering compare_unavailable) page_example)
       = Some ''Scoring service unavailable''
   \<and> error (handleCompare (answering compare_not_found) page_example) = Some ''Not Found''
   \<and> error_banner (handleCompare (answering compare_not_found) page_example)
       = Some ''Not Found''"
proof -
  let ?a = "\<lparr>basic_id = 1, title = ''Heat'', poster_path = None, release_date = None\<rparr>"
  let ?b = "\<lparr>basic_id = 2, title = ''Ronin'', poster_path = None, release_date = None\<rparr>"
  let ?u = "\<lparr>error_member = Some ''Scoring service unavailable'', detail_member = None,
             members = \<lparr>success = False, comparison = None\<rparr>\<rparr>"
  let ?n = "\<lparr>error_member = None, detail_member = Some ''Not Found'',
             members = \<lparr>success = False, comparison = None\<rparr>\<rparr>"
  have page: "movie1 page_example = Some ?a \<and> movie2 page_example = Some ?b"
    by (simp add: page_example_def)
  have u: "\<not> ok compare_unavailable \<and> json compare_unavailable = Inr ?u
      \<and> status compare_unavailable = 503"
    by (simp add: compare_unavailable_def)
  have n: "\<not> ok compare_not_found \<and> json compare_not_found = Inr ?n
      \<and> status compare_not_found = 404"
    by (simp add: compare_not_found_def)
  have "fetch_result (Resolved compare_unavailable)
      = Inl (ApiError 503 ''Scoring service unavailable'')
    \<and> error (handleCompare (answering compare_unavailable) page_example)
       = Some ''Scoring service unavailable''
    \<and> error_banner (handleCompare (answering compare_unavailable) page_example)
       = Some ''Scoring service unavailable''"
    using api_error_message_surfaced [of compare_unavailable ?u page_example ?a ?b
        "answering compare_unavailable" compare_unavailable ?u] page u
    by (simp add: answering_def)
  moreover have "fetch_result (Resolved compare_not_found) = Inl (ApiError 404 ''Not Found'')
    \<and> error (handleCompare (answering compare_not_found) page_example) = Some ''Not Found''
    \<and> error_banner (handleCompare (answering compare_not_found) page_example)
       = Some ''Not Found''"
    using api_error_message_surfaced [of compare_not_found ?n page_example ?a ?b
        "answering compare_not_found" compare_not_found ?n] page n
    by (simp add: answering_def)
  ultimately show ?thesis by simp
qed

text \<open>The claim as written fails in two places. On an \<open>error\<close> member that is the empty
  string the message is \<open>Request failed\<close>, which is not that string. And the search bar
  does not surface the message: when its search is answered with status 429 and the error
  \<open>Rate limit exceeded\<close>, it shows its own fixed text.\<close>

theorem api_error_message_counterexample:
  "fetch_result
     (Resolved \<lparr>ok = False, status = 500,
                json = Inr \<lparr>error_member = Some [], detail_member = None, members = ()\<rparr>\<rparr>)
   = Inl (ApiError 500 ''Request failed'')
   \<and> fetch_result
     (Resolved \<lparr>ok = False, status = 500,
                json = Inr \<lparr>error_member = Some [], detail_member = None, members = ()\<rparr>\<rparr>)
   \<noteq> Inl (ApiError 500 [])
   \<and> searchMovies (answering search_throttled) ''heat'' None
       = Inl (ApiError 429 ''Rate limit exceeded'')
   \<and> sb_error (sb_run (answering search_throttled) [Typed ''heat'', TimerFired, Settled 0]
                 sb_mounted)
       = Some ''Search failed. Please try again.''"
  by (simp add: fetch_result_def or_else_def searchMovies_request answering_def
      search_throttled_def sb_mounted_def setQuery_def search_effect_def timer_fired_def
      search_settled_def Let_def trim_def js_whitespace_def)


section \<open>Weights: the total indicator and the compare button\<close>

lemma to_double_zero: "to_double 0 = 0"
  by (simp add: to_double_def)

lemma toFixed_zero: "toFixed 0 0 = ''0''"
  by code_simp

lemma totalWeight_zero:
  assumes "vote_average w = 0" "vote_count w = 0" "popularity w = 0" "revenue w = 0"
    "runtime_quality w = 0" "release_recency w = 0" "cast_star_power w = 0"
  shows "totalWeight w = 0"
  using assms by (simp add: totalWeight_def weight_values_def js_add_def to_double_zero)

lemma default_total_class: "className (total_indicator DEFAULT_WEIGHTS) = ''text-primary-400''"
  by code_simp

text \<open>C4: for every \<open>WeightConfig\<close> whose seven fields are all 0 the summed total is not
  greater than 0, so the total indicator (rendered while the panel is expanded) takes the
  red error style; submission is not blocked, since the compare button is disabled exactly
  when a movie is missing or a request is in flight, whatever the weights are.\<close>

theorem zero_weights_flagged_not_blocked:
  assumes "vote_average w = 0" "vote_count w = 0" "popularity w = 0" "revenue w = 0"
    "runtime_quality w = 0" "release_recency w = 0" "cast_star_power w = 0"
  shows "\<not> totalWeight w > 0
         \<and> total_indicator w = Element ''span'' ''text-red-400'' [Text ''0'', Text ''%'']
         \<and> total_row True w = Some (total_indicator w)
         \<and> compare_disabled (st\<lparr>weights := w\<rparr>)
             = (movie1 st = None \<or> movie2 st = None \<or> isLoading st)
         \<and> compare_disabled (st\<lparr>weights := w\<rparr>) = compare_disabled (st\<lparr>weights := w'\<rparr>)"
  using totalWeight_zero [OF assms]
  by (simp add: total_indicator_def total_row_def compare_disabled_def js_mul_def
      to_double_zero toFixed_zero)

theorem zero_weights_flagged_not_blocked_witness:
  "vote_average zero_weights = 0 \<and> vote_count zero_weights = 0 \<and> popularity zero_weights = 0
   \<and> revenue zero_weights = 0 \<and> runtime_quality zero_weights = 0
   \<and> release_recency zero_weights = 0 \<and> cast_star_power zero_weights = 0
   \<and> className (total_indicator zero_weights) = ''text-red-400''
   \<and> className (total_indicator DEFAULT_WEIGHTS) = ''text-primary-400''
   \<and> \<not> compare_disabled (page_example\<lparr>weights := zero_weights\<rparr>)"
proof -
  have z: "vote_average zero_weights = 0 \<and> vote_count zero_weights = 0
      \<and> popularity zero_weights = 0 \<and> revenue zero_weights = 0
      \<and> runtime_quality zero_weights = 0 \<and> release_recency zero_weights = 0
      \<and> cast_star_power zero_weights = 0"
    by (simp add: zero_weights_def)
  have d: "className (total_indicator DEFAULT_WEIGHTS) = ''text-primary-400''"
    by (rule default_total_class)
  have p: "movie1 page_example \<noteq> None \<and> movie2 page_example \<noteq> None
      \<and> \<not> isLoading page_example"
    by (simp add: page_example_def)
  show ?thesis
    using zero_weights_flagged_not_blocked [of zero_weights page_example] z d p
    by simp
qed


section \<open>The winner badge\<close>

lemma has_badge_movie1_card: "has_badge (movie1_card r) = (winner r = Movie1)"
  by (simp add: movie1_card_def winner_badge1_def)

lemma has_badge_movie2_card: "has_badge (movie2_card r) = (winner r = Movie2)"
  by (simp add: movie2_card_def winner_badge2_def)

lemma no_badge_versus: "\<not> has_badge (versus r)"
  by (simp add: versus_def)

text \<open>C6: for every \<open>ComparisonResult\<close> whose winner is \<open>tie\<close>, neither movie's card
  shows a "Winner" badge, and none appears anywhere in the score comparison.\<close>

theorem tie_renders_no_winner_badge:
  assumes "winner r = Tie"
  shows "\<not> has_badge (movie1_card r) \<and> \<not> has_badge (movie2_card r)
         \<and> winner_badge1 \<notin> set (children (movie1_card r))
         \<and> winner_badge2 \<notin> set (children (movie2_card r))
         \<and> \<not> has_badge (score_comparison r)"
  using assms
  by (simp add: has_badge_movie1_card has_badge_movie2_card no_badge_versus
      score_comparison_def movie1_card_def movie2_card_def winner_badge1_def winner_badge2_def)

theorem tie_renders_no_winner_badge_witness:
  "winner tie_example = Tie
   \<and> \<not> has_badge (movie1_card tie_example) \<and> \<not> has_badge (movie2_card tie_example)
   \<and> \<not> has_badge (score_comparison tie_example)
   \<and> has_badge (movie1_card (tie_example\<lparr>winner := Movie1\<rparr>))
   \<and> has_badge (movie2_card (tie_example\<lparr>winner := Movie2\<rparr>))"
  using tie_renders_no_winner_badge [of tie_example]
  by (simp add: tie_example_def has_badge_movie1_card has_badge_movie2_card)


section \<open>The search bar\<close>

lemma trim_length_le: "length (trim s) \<le> length s"
proof -
  have "length (trim s) = length (dropWhile js_whitespace (rev (dropWhile js_whitespace s)))"
    by (simp add: trim_def)
  also have "\<dots> \<le> length (rev (dropWhile js_whitespace s))"
    by (rule length_dropWhile_le)
  also have "\<dots> \<le> length s"
    by (simp add: length_dropWhile_le)
  finally show ?thesis .
qed

lemma sb_inv_effect: "sb_inv st \<Longrightarrow> sb_inv (search_effect q st)"
  by (simp add: sb_inv_def search_effect_def Let_def)

lemma sb_inv_setQuery: "sb_inv st \<Longrightarrow> sb_inv (setQuery q st)"
  by (simp add: setQuery_def sb_inv_effect)

lemma sb_inv_timer: "sb_inv st \<Longrightarrow> sb_inv (timer_fired net st)"
  by (auto simp: sb_inv_def timer_fired_def search_request_def fetch_request_def
      search_endpoint_def split: option.splits)

lemma sb_inv_settled: "sb_inv st \<Longrightarrow> sb_inv (search_settled i st)"
  by (simp add: sb_inv_def search_settled_def Let_def split: sum.splits)

lemma sb_inv_clear: "sb_inv st \<Longrightarrow> sb_inv (handleClear st)"
proof -
  assume "sb_inv st"
  then have "sb_inv (setQuery [] st)" by (rule sb_inv_setQuery)
  then show ?thesis by (simp add: handleClear_def sb_inv_def)
qed

lemma sb_inv_step: "sb_inv st \<Longrightarrow> sb_inv (sb_step net e st)"
proof (cases e)
  case (Typed q)
  assume "sb_inv st"
  then show ?thesis using Typed by (simp add: sb_inv_setQuery)
next
  case TimerFired
  assume "sb_inv st"
  then show ?thesis using TimerFired by (simp add: sb_inv_timer)
next
  case (Settled i)
  assume "sb_inv st"
  then show ?thesis using Settled by (simp add: sb_inv_settled)
next
  case Cleared
  assume "sb_inv st"
  then show ?thesis using Cleared by (simp add: sb_inv_clear)
next
  case Selected
  assume "sb_inv st"
  then show ?thesis using Selected by (simp add: sb_inv_clear)
next
  case Focused
  assume "sb_inv st"
  then show ?thesis using Focused by (simp add: sb_inv_def)
next
  case ClickedOutside
  assume "sb_inv st"
  then show ?thesis using ClickedOutside by (simp add: sb_inv_def)
qed

lemma sb_inv_run: "sb_inv st \<Longrightarrow> sb_inv (sb_run net evs st)"
  by (induction evs arbitrary: st) (simp_all add: sb_inv_step)

lemma sb_inv_mounted: "sb_inv sb_mounted"
  by (simp add: sb_inv_def sb_mounted_def)

lemma sb_inv_sent:
  assumes "sb_inv st" "search_request q \<in> set (sent st)"
  shows "2 \<le> length (trim q)"
proof -
  from assms
  have "list_ex (\<lambda>(k, v). k = ''q'' \<and> 2 \<le> length (trim v)) (params (url (search_request q)))"
    by (auto simp: sb_inv_def list_all_iff)
  then show ?thesis
    by (simp add: search_request_def fetch_request_def search_endpoint_def)
qed

lemma sb_run_example:
  "sent (sb_run offline
           [Typed ''a'', TimerFired, Typed ''ab'', TimerFired, Typed ''a'', TimerFired] sb_mounted)
     = [search_request ''ab'']"
  by (simp add: sb_mounted_def setQuery_def search_effect_def timer_fired_def Let_def
      trim_def js_whitespace_def)

text \<open>C5: for every query of fewer than 2 characters, no network call is ever triggered
  for it: whatever the user does after the component has mounted, the request of
  \<open>searchMovies\<close> for that query is never sent; the effect run for such a query schedules
  no timer, sends nothing and clears the results list.\<close>

theorem short_query_never_searched:
  assumes "length q < 2"
  shows "search_request q \<notin> set (sent (sb_run net evs sb_mounted))
         \<and> sent (search_effect q st) = sent st
         \<and> debounce (search_effect q st) = None
         \<and> results (search_effect q st) = []
         \<and> sent (timer_fired net (search_effect q st)) = sent st"
proof -
  have short: "length (trim q) < 2"
    using assms trim_length_le [of q] by simp
  have "sb_inv (sb_run net evs sb_mounted)"
    by (rule sb_inv_run [OF sb_inv_mounted])
  then have "search_request q \<notin> set (sent (sb_run net evs sb_mounted))"
    using sb_inv_sent [of "sb_run net evs sb_mounted" q] short by auto
  moreover have "sent (search_effect q st) = sent st"
    by (simp add: search_effect_def Let_def)
  moreover have "debounce (search_effect q st) = None"
    using short by (simp add: search_effect_def Let_def)
  moreover have "results (search_effect q st) = []"
    using short by (simp add: search_effect_def Let_def)
  moreover have "sent (timer_fired net (search_effect q st)) = sent st"
    using short by (simp add: search_effect_def Let_def timer_fired_def)
  ultimately show ?thesis by simp
qed

theorem short_query_never_searched_witness:
  "length ''a'' < 2
   \<and> search_request ''a'' \<notin> set (sent (sb_run offline
        [Typed ''a'', TimerFired, Typed ''ab'', TimerFired, Typed ''a'', TimerFired] sb_mounted))
   \<and> sent (sb_run offline
        [Typed ''a'', TimerFired, Typed ''ab'', TimerFired, Typed ''a'', TimerFired] sb_mounted)
       = [search_request ''ab'']
   \<and> debounce (search_effect ''a'' sb_mounted) = None
   \<and> results (search_effect ''a'' sb_mounted) = []"
  using short_query_never_searched [of "''a''" offline
      "[Typed ''a'', TimerFired, Typed ''ab'', TimerFired, Typed ''a'', TimerFired]" sb_mounted]
  by (simp add: sb_run_example del: sb_run.simps)

end
